theory Spec2Isabelle
  imports Complex_Main
begin

section \<open>The time tracker of src/src/extension.ts\<close>

text \<open>
  The class \<^verbatim>\<open>TimeTracker\<close> is embedded by explicit state passing: one record holds the
  private fields of the instance together with the part of the editor host that the
  methods read and write (the key-value store \<^verbatim>\<open>context.globalState\<close>, the list
  \<^verbatim>\<open>context.subscriptions\<close>, the workspace folders, and the host's table of pending
  timers). Every method takes the value that \<^verbatim>\<open>Date.now()\<close> returns during the call
  (milliseconds, an integer) as its first argument and returns the updated record.

  JavaScript numbers are idealised: millisecond timestamps are \<^typ>\<open>int\<close>, durations in
  seconds are \<^typ>\<open>real\<close>, so IEEE rounding is not modelled. One call reads the clock
  once: the clock does not advance inside a synchronous method.

  \<^verbatim>\<open>updateStatusBar()\<close> only assigns \<^verbatim>\<open>statusBarItem.text\<close>, which no method reads back;
  the model keeps the text as a function of state and clock and leaves the assignment out.
\<close>

subsection \<open>Data\<close>

text \<open>
  \<^verbatim>\<open>interface WorkspaceStats { totalTime: number; lastSaveTime: number; }\<close>. The second
  field is renamed because the tracker has a private field of the same name.
\<close>

record WorkspaceStats =
  totalTime :: real
  stats_lastSaveTime :: int

text \<open>
  The two listeners that \<^verbatim>\<open>setupEventListeners\<close> registers with the host and pushes to
  \<^verbatim>\<open>context.subscriptions\<close>. Nothing disposes of them while the tracker lives, so the
  list is also the host's list of registered listeners. The commands that \<^verbatim>\<open>activate\<close>
  pushes to the same list are not listeners and are left out.
\<close>

datatype disposable = TextChangeListener | SelectionChangeListener

text \<open>
  Modelled from the spec: the outcome of one write to the persistent store. The store is
  the host's \<^verbatim>\<open>context.globalState\<close>, whose implementation is not part of the repository;
  the spec allows a write to fail. The outcome is a parameter of every method that writes.
\<close>

datatype write_outcome = WriteOk | WriteFailed

record TimeTracker =
  isTracking :: bool
  startTime :: int
  currentSessionTime :: real
  inactivityTimer :: "nat option"
  updateInterval :: "nat option"
  lastSaveTime :: real
  globalState :: "string \<rightharpoonup> WorkspaceStats"
  subscriptions :: "disposable list"
  workspaceFolders :: "string list option"
  timeouts :: "(nat \<times> int) list"
  intervals :: "nat list"
  nextHandle :: nat

text \<open>
  \<^const>\<open>inactivityTimer\<close> and \<^const>\<open>updateInterval\<close> hold timer handles (\<open>None\<close> is
  \<^verbatim>\<open>undefined\<close>; a Node \<^verbatim>\<open>Timeout\<close> object is always truthy). \<^const>\<open>timeouts\<close> is the
  host's table of pending one-shot timers, each a handle with the time at which it is due;
  \<^const>\<open>intervals\<close> lists the handles of the running periodic timers; \<^const>\<open>nextHandle\<close>
  is the next handle that \<^verbatim>\<open>setTimeout\<close> or \<^verbatim>\<open>setInterval\<close> returns.
  A workspace folder is represented by the string \<^verbatim>\<open>uri.toString()\<close>.
\<close>

definition inactivityTimeout :: int where
  "inactivityTimeout = 20 * 1000"

subsection \<open>Host primitives\<close>

definition setTimeout :: "int \<Rightarrow> int \<Rightarrow> TimeTracker \<Rightarrow> nat \<times> TimeTracker" where
  "setTimeout now delay s =
     (nextHandle s,
      s\<lparr>timeouts := (nextHandle s, now + delay) # timeouts s,
        nextHandle := Suc (nextHandle s)\<rparr>)"

definition clearTimeout :: "nat \<Rightarrow> TimeTracker \<Rightarrow> TimeTracker" where
  "clearTimeout h s = s\<lparr>timeouts := filter (\<lambda>p. fst p \<noteq> h) (timeouts s)\<rparr>"

definition setInterval :: "TimeTracker \<Rightarrow> nat \<times> TimeTracker" where
  "setInterval s =
     (nextHandle s,
      s\<lparr>intervals := nextHandle s # intervals s, nextHandle := Suc (nextHandle s)\<rparr>)"

definition clearInterval :: "nat \<Rightarrow> TimeTracker \<Rightarrow> TimeTracker" where
  "clearInterval h s = s\<lparr>intervals := filter (\<lambda>h'. h' \<noteq> h) (intervals s)\<rparr>"

text \<open>
  Modelled from the spec: \<^verbatim>\<open>context.globalState.update(key, value)\<close>. A successful write
  stores the record under the key; a failed write leaves the stored record as it was.
  The method returns a thenable, which no caller in the source awaits or inspects.
\<close>

definition updateGlobalState ::
    "write_outcome \<Rightarrow> string \<Rightarrow> WorkspaceStats \<Rightarrow> TimeTracker \<Rightarrow> TimeTracker" where
  "updateGlobalState w key v s =
     (case w of
        WriteOk \<Rightarrow> s\<lparr>globalState := (globalState s)(key \<mapsto> v)\<rparr>
      | WriteFailed \<Rightarrow> s)"

subsection \<open>Presentation: formatTime\<close>

text \<open>
  \<^verbatim>\<open>Number.prototype.toString\<close> on the integer that \<^verbatim>\<open>Math.floor\<close> returns: the decimal
  numeral, with a minus sign for a negative number. (JavaScript switches to exponent
  notation from \<open>10\<^sup>2\<^sup>1\<close> on; durations of that size are outside the model.)
\<close>

fun natToString :: "nat \<Rightarrow> string" where
  "natToString n =
     (if n < 10 then [''0123456789'' ! n]
      else natToString (n div 10) @ [''0123456789'' ! (n mod 10)])"

declare natToString.simps [simp del]

definition toString :: "int \<Rightarrow> string" where
  "toString i = (if i < 0 then CHR ''-'' # natToString (nat (- i)) else natToString (nat i))"

text \<open>\<^verbatim>\<open>str.padStart(n, '0')\<close>: zeros on the left up to length \<open>n\<close>, nothing cut.\<close>

definition padStart :: "nat \<Rightarrow> char \<Rightarrow> string \<Rightarrow> string" where
  "padStart n c str = replicate (n - length str) c @ str"

text \<open>
  The JavaScript remainder \<^verbatim>\<open>x % y\<close>: the quotient is truncated towards zero, so the
  result has the sign of \<open>x\<close>.
\<close>

definition jsRem :: "real \<Rightarrow> real \<Rightarrow> real" where
  "jsRem x y =
     x - y * of_int (if 0 \<le> x / y then \<lfloor>x / y\<rfloor> else \<lceil>x / y\<rceil>)"

definition formatTime :: "real \<Rightarrow> string" where
  "formatTime seconds =
     (let hours = \<lfloor>seconds / 3600\<rfloor>;
          minutes = \<lfloor>jsRem seconds 3600 / 60\<rfloor>;
          secs = \<lfloor>jsRem seconds 60\<rfloor>
      in padStart 2 (CHR ''0'') (toString hours) @ '':'' @
         padStart 2 (CHR ''0'') (toString minutes) @ '':'' @
         padStart 2 (CHR ''0'') (toString secs))"

subsection \<open>Workspace identity\<close>

text \<open>\<^verbatim>\<open>vscode.workspace.workspaceFolders?.[0]\<close>, as the folder's URI string.\<close>

definition firstWorkspaceFolder :: "string list option \<Rightarrow> string option" where
  "firstWorkspaceFolder ws =
     (case ws of None \<Rightarrow> None | Some [] \<Rightarrow> None | Some (f # _) \<Rightarrow> Some f)"

text \<open>\<^verbatim>\<open>workspaceFolder?.uri.toString() || 'global'\<close>: the empty string is falsy.\<close>

definition workspaceIdentity :: "string list option \<Rightarrow> string" where
  "workspaceIdentity ws =
     (case firstWorkspaceFolder ws of
        None \<Rightarrow> ''global''
      | Some u \<Rightarrow> if u = [] then ''global'' else u)"

definition getWorkspaceKey :: "TimeTracker \<Rightarrow> string" where
  "getWorkspaceKey s = ''stats_'' @ workspaceIdentity (workspaceFolders s)"

subsection \<open>The methods of TimeTracker\<close>

text \<open>
  The expression
  \<^verbatim>\<open>isTracking ? currentSessionTime + (Date.now() - startTime) / 1000 : currentSessionTime\<close>
  of \<^verbatim>\<open>saveStats\<close>, \<^verbatim>\<open>getStats\<close>, \<^verbatim>\<open>updateStatusBar\<close> and \<^verbatim>\<open>showStatistics\<close>.
\<close>

definition currentTotalSessionTime :: "int \<Rightarrow> TimeTracker \<Rightarrow> real" where
  "currentTotalSessionTime now s =
     (if isTracking s then currentSessionTime s + of_int (now - startTime s) / 1000
      else currentSessionTime s)"

text \<open>The text that \<^verbatim>\<open>updateStatusBar\<close> shows, without the icon prefix.\<close>

definition updateStatusBar :: "int \<Rightarrow> TimeTracker \<Rightarrow> string" where
  "updateStatusBar now s = formatTime (currentTotalSessionTime now s)"

definition setupEventListeners :: "TimeTracker \<Rightarrow> TimeTracker" where
  "setupEventListeners s =
     s\<lparr>subscriptions := subscriptions s @ [TextChangeListener, SelectionChangeListener]\<rparr>"

definition startTracking :: "int \<Rightarrow> TimeTracker \<Rightarrow> TimeTracker" where
  "startTracking now s =
     (if isTracking s then s
      else
        let s1 = setupEventListeners (s\<lparr>isTracking := True, startTime := now\<rparr>);
            (h, s2) = setInterval s1
        in s2\<lparr>updateInterval := Some h\<rparr>)"

definition clearInactivityTimer :: "TimeTracker \<Rightarrow> TimeTracker" where
  "clearInactivityTimer s =
     (case inactivityTimer s of
        None \<Rightarrow> s
      | Some h \<Rightarrow> (clearTimeout h s)\<lparr>inactivityTimer := None\<rparr>)"

definition clearUpdateInterval :: "TimeTracker \<Rightarrow> TimeTracker" where
  "clearUpdateInterval s =
     (case updateInterval s of
        None \<Rightarrow> s
      | Some h \<Rightarrow> (clearInterval h s)\<lparr>updateInterval := None\<rparr>)"

definition stopTracking :: "int \<Rightarrow> TimeTracker \<Rightarrow> TimeTracker" where
  "stopTracking now s =
     (if \<not> isTracking s then s
      else
        clearUpdateInterval (clearInactivityTimer
          (s\<lparr>isTracking := False,
             currentSessionTime :=
               currentSessionTime s + of_int (now - startTime s) / 1000\<rparr>)))"

definition resetInactivityTimer :: "int \<Rightarrow> TimeTracker \<Rightarrow> TimeTracker" where
  "resetInactivityTimer now s =
     (let (h, s1) = setTimeout now inactivityTimeout (clearInactivityTimer s)
      in s1\<lparr>inactivityTimer := Some h\<rparr>)"

definition onActivity :: "int \<Rightarrow> TimeTracker \<Rightarrow> TimeTracker" where
  "onActivity now s = resetInactivityTimer now s"

text \<open>The stored record of the current workspace, \<^verbatim>\<open>globalState.get(key) || {0, 0}\<close>.\<close>

definition storedStats :: "TimeTracker \<Rightarrow> WorkspaceStats" where
  "storedStats s =
     (case globalState s (getWorkspaceKey s) of
        None \<Rightarrow> \<lparr>totalTime = 0, stats_lastSaveTime = 0\<rparr>
      | Some stats \<Rightarrow> stats)"

text \<open>\<^verbatim>\<open>getStats\<close> returns the record and, as a side effect, may set the baseline.\<close>

definition getStats :: "int \<Rightarrow> TimeTracker \<Rightarrow> WorkspaceStats \<times> TimeTracker" where
  "getStats now s =
     (storedStats s,
      if lastSaveTime s = 0 then s\<lparr>lastSaveTime := currentTotalSessionTime now s\<rparr> else s)"

definition saveStats :: "int \<Rightarrow> write_outcome \<Rightarrow> TimeTracker \<Rightarrow> TimeTracker" where
  "saveStats now w s =
     (let workspaceKey = getWorkspaceKey s;
          (existingStats, s1) = getStats now s;
          cur = currentTotalSessionTime now s1;
          timeSinceLastSave = cur - lastSaveTime s1;
          existingStats' = existingStats
            \<lparr>totalTime := totalTime existingStats + timeSinceLastSave,
             stats_lastSaveTime := now\<rparr>;
          s2 = s1\<lparr>lastSaveTime := cur\<rparr>
      in updateGlobalState w workspaceKey existingStats' s2)"

definition resetStats :: "int \<Rightarrow> write_outcome \<Rightarrow> TimeTracker \<Rightarrow> TimeTracker" where
  "resetStats now w s =
     (let workspaceKey = getWorkspaceKey s;
          s1 = updateGlobalState w workspaceKey
                 \<lparr>totalTime = 0, stats_lastSaveTime = now\<rparr> s
      in s1\<lparr>currentSessionTime := 0, lastSaveTime := 0, startTime := now\<rparr>)"

text \<open>
  The field initialisers and the constructor, which ends with \<^verbatim>\<open>this.startTracking()\<close>.
  The arguments are the host's store and workspace folders at construction time.
\<close>

definition fieldInitialisers ::
    "(string \<rightharpoonup> WorkspaceStats) \<Rightarrow> string list option \<Rightarrow> TimeTracker" where
  "fieldInitialisers store ws =
     \<lparr>isTracking = False, startTime = 0, currentSessionTime = 0,
      inactivityTimer = None, updateInterval = None, lastSaveTime = 0,
      globalState = store, subscriptions = [], workspaceFolders = ws,
      timeouts = [], intervals = [], nextHandle = 0\<rparr>"

definition newTimeTracker ::
    "int \<Rightarrow> (string \<rightharpoonup> WorkspaceStats) \<Rightarrow> string list option \<Rightarrow> TimeTracker" where
  "newTimeTracker now store ws = startTracking now (fieldInitialisers store ws)"

subsection \<open>Events delivered by the host\<close>





text \<open>
  The host fires the pending timeout with handle \<open>h\<close> at time \<open>t\<close>, not before it is
  due: the timer leaves the table and its callback \<^verbatim>\<open>() => { this.stopTracking(); }\<close>
  runs. A handle that is not pending (cleared, or already fired) does nothing.
\<close>

definition fireTimeout :: "nat \<Rightarrow> int \<Rightarrow> TimeTracker \<Rightarrow> TimeTracker" where
  "fireTimeout h t s =
     (case map_of (timeouts s) h of
        None \<Rightarrow> s
      | Some due \<Rightarrow>
          if due \<le> t then stopTracking t (clearTimeout h s) else s)"

text \<open>
  Time passes until \<open>t\<close> with no activity event and no command: the timeouts that are
  due by \<open>t\<close> fire, each at the time it is due, the earliest first. The ticks of the
  refresh interval only redraw the status bar and leave the state as it is.
\<close>

definition elapse :: "int \<Rightarrow> TimeTracker \<Rightarrow> TimeTracker" where
  "elapse t s =
     foldl (\<lambda>s' (h, due). fireTimeout h due s') s
       (sort_key snd (filter (\<lambda>(h, due). due \<le> t) (timeouts s)))"

subsection \<open>Sequences of calls\<close>

text \<open>
  A caller's sequence of \<^verbatim>\<open>startTracking()\<close> and \<^verbatim>\<open>stopTracking()\<close> calls, each with the
  clock value at the call.
\<close>

datatype call = Start | Stop

fun applyCall :: "int \<times> call \<Rightarrow> TimeTracker \<Rightarrow> TimeTracker" where
  "applyCall (now, Start) s = startTracking now s"
| "applyCall (now, Stop) s = stopTracking now s"

fun run :: "(int \<times> call) list \<Rightarrow> TimeTracker \<Rightarrow> TimeTracker" where
  "run [] s = s"
| "run (c # cs) s = run cs (applyCall c s)"

text \<open>The elapsed session time read right after each call, at the time of the call.\<close>

fun readings :: "(int \<times> call) list \<Rightarrow> TimeTracker \<Rightarrow> real list" where
  "readings [] s = []"
| "readings (c # cs) s =
     currentTotalSessionTime (fst c) (applyCall c s) # readings cs (applyCall c s)"


text \<open>
  Every pending timeout of the host is the one whose handle the tracker holds in
  \<^verbatim>\<open>inactivityTimer\<close>. The constructor establishes this and every method keeps it.
\<close>

definition timersOwned :: "TimeTracker \<Rightarrow> bool" where
  "timersOwned s = list_all (\<lambda>p. inactivityTimer s = Some (fst p)) (timeouts s)"

section \<open>Field lemmas\<close>

lemma startTracking_paused:
  "\<not> isTracking s \<Longrightarrow> startTracking now s =
     s\<lparr>isTracking := True, startTime := now,
       subscriptions := subscriptions s @ [TextChangeListener, SelectionChangeListener],
       intervals := nextHandle s # intervals s, nextHandle := Suc (nextHandle s),
       updateInterval := Some (nextHandle s)\<rparr>"
  by (simp add: startTracking_def setupEventListeners_def setInterval_def)

lemma newTimeTracker_fields [simp]:
  "isTracking (newTimeTracker now store ws)"
  "startTime (newTimeTracker now store ws) = now"
  "currentSessionTime (newTimeTracker now store ws) = 0"
  "lastSaveTime (newTimeTracker now store ws) = 0"
  "globalState (newTimeTracker now store ws) = store"
  "workspaceFolders (newTimeTracker now store ws) = ws"
  "timeouts (newTimeTracker now store ws) = []"
  "inactivityTimer (newTimeTracker now store ws) = None"
  "subscriptions (newTimeTracker now store ws) = [TextChangeListener, SelectionChangeListener]"
  "nextHandle (newTimeTracker now store ws) = 1"
  by (simp_all add: newTimeTracker_def fieldInitialisers_def startTracking_paused)

lemma clear_fields [simp]:
  "isTracking (clearInactivityTimer s) = isTracking s"
  "startTime (clearInactivityTimer s) = startTime s"
  "currentSessionTime (clearInactivityTimer s) = currentSessionTime s"
  "lastSaveTime (clearInactivityTimer s) = lastSaveTime s"
  "globalState (clearInactivityTimer s) = globalState s"
  "workspaceFolders (clearInactivityTimer s) = workspaceFolders s"
  "subscriptions (clearInactivityTimer s) = subscriptions s"
  "updateInterval (clearInactivityTimer s) = updateInterval s"
  "intervals (clearInactivityTimer s) = intervals s"
  "nextHandle (clearInactivityTimer s) = nextHandle s"
  "inactivityTimer (clearInactivityTimer s) = None"
  "isTracking (clearUpdateInterval s) = isTracking s"
  "startTime (clearUpdateInterval s) = startTime s"
  "currentSessionTime (clearUpdateInterval s) = currentSessionTime s"
  "lastSaveTime (clearUpdateInterval s) = lastSaveTime s"
  "globalState (clearUpdateInterval s) = globalState s"
  "workspaceFolders (clearUpdateInterval s) = workspaceFolders s"
  "subscriptions (clearUpdateInterval s) = subscriptions s"
  "inactivityTimer (clearUpdateInterval s) = inactivityTimer s"
  "timeouts (clearUpdateInterval s) = timeouts s"
  "nextHandle (clearUpdateInterval s) = nextHandle s"
  "updateInterval (clearUpdateInterval s) = None"
  by (simp_all add: clearInactivityTimer_def clearUpdateInterval_def clearTimeout_def
      clearInterval_def split: option.splits)

lemma stopTracking_fields:
  "isTracking s \<Longrightarrow> \<not> isTracking (stopTracking now s)"
  "isTracking s \<Longrightarrow> currentSessionTime (stopTracking now s) =
     currentSessionTime s + of_int (now - startTime s) / 1000"
  "lastSaveTime (stopTracking now s) = lastSaveTime s"
  "globalState (stopTracking now s) = globalState s"
  "workspaceFolders (stopTracking now s) = workspaceFolders s"
  "subscriptions (stopTracking now s) = subscriptions s"
  "nextHandle (stopTracking now s) = nextHandle s"
  by (simp_all add: stopTracking_def)

lemma getStats_fields [simp]:
  "isTracking (snd (getStats now s)) = isTracking s"
  "startTime (snd (getStats now s)) = startTime s"
  "currentSessionTime (snd (getStats now s)) = currentSessionTime s"
  "workspaceFolders (snd (getStats now s)) = workspaceFolders s"
  "globalState (snd (getStats now s)) = globalState s"
  "fst (getStats now s) = storedStats s"
  "lastSaveTime (snd (getStats now s)) =
     (if lastSaveTime s = 0 then currentTotalSessionTime now s else lastSaveTime s)"
  by (simp_all add: getStats_def)

text \<open>
  \<^verbatim>\<open>saveStats\<close> in one step: \<^verbatim>\<open>getStats\<close> replaces a zero baseline by the current elapsed
  time before the difference is taken.
\<close>

lemma saveStats_unfold:
  "saveStats now w s =
     updateGlobalState w (getWorkspaceKey s)
       ((storedStats s)\<lparr>totalTime := totalTime (storedStats s) +
            (currentTotalSessionTime now s -
               (if lastSaveTime s = 0 then currentTotalSessionTime now s else lastSaveTime s)),
          stats_lastSaveTime := now\<rparr>)
       (s\<lparr>lastSaveTime := currentTotalSessionTime now s\<rparr>)"
  by (simp add: saveStats_def getStats_def Let_def currentTotalSessionTime_def)

lemma saveStats_fields [simp]:
  "isTracking (saveStats now w s) = isTracking s"
  "startTime (saveStats now w s) = startTime s"
  "currentSessionTime (saveStats now w s) = currentSessionTime s"
  "workspaceFolders (saveStats now w s) = workspaceFolders s"
  "lastSaveTime (saveStats now w s) = currentTotalSessionTime now s"
  by (cases w; simp add: saveStats_unfold updateGlobalState_def)+

lemma saveStats_key [simp]: "getWorkspaceKey (saveStats now w s) = getWorkspaceKey s"
  by (simp add: getWorkspaceKey_def)

lemma saveStats_elapsed [simp]:
  "currentTotalSessionTime t (saveStats now w s) = currentTotalSessionTime t s"
  by (simp add: currentTotalSessionTime_def)

lemma storedStats_saveStats:
  "storedStats (saveStats now w s) =
     (case w of
        WriteOk \<Rightarrow> (storedStats s)\<lparr>totalTime := totalTime (storedStats s) +
            (currentTotalSessionTime now s -
               (if lastSaveTime s = 0 then currentTotalSessionTime now s else lastSaveTime s)),
          stats_lastSaveTime := now\<rparr>
      | WriteFailed \<Rightarrow> storedStats s)"
  by (cases w)
     (simp_all add: saveStats_unfold updateGlobalState_def storedStats_def getWorkspaceKey_def)

lemma storedStats_cong:
  "globalState s' = globalState s \<Longrightarrow> workspaceFolders s' = workspaceFolders s \<Longrightarrow>
   storedStats s' = storedStats s"
  by (simp add: storedStats_def getWorkspaceKey_def)

lemma storedStats_empty:
  "globalState s = Map.empty \<Longrightarrow> storedStats s = \<lparr>totalTime = 0, stats_lastSaveTime = 0\<rparr>"
  by (simp add: storedStats_def)

lemma saveStats_same_instant:
  "totalTime (storedStats (saveStats now w2 (saveStats now w1 s))) =
   totalTime (storedStats (saveStats now w1 s))"
  by (cases w2) (simp_all add: storedStats_saveStats [of now _ "saveStats now w1 s"])

lemma saveStats_later:
  "totalTime (storedStats (saveStats t2 WriteOk (saveStats t1 w s))) =
   totalTime (storedStats (saveStats t1 w s)) +
     (if currentTotalSessionTime t1 s = 0 then 0
      else currentTotalSessionTime t2 s - currentTotalSessionTime t1 s)"
  by (simp add: storedStats_saveStats [of t2 _ "saveStats t1 w s"])

section \<open>Redundant calls\<close>

text \<open>
  C7. Calling \<^verbatim>\<open>startTracking()\<close> while already Tracking, or \<^verbatim>\<open>stopTracking()\<close> while
  already Paused, returns at the guard in the first line: the whole state (every field of
  the instance, both timer handles, the stored records) is what it was, and no error
  branch exists.
\<close>

theorem redundant_start_stop_noop:
  "(isTracking s \<longrightarrow> startTracking now s = s) \<and>
   (\<not> isTracking s \<longrightarrow> stopTracking now s = s)"
  by (simp add: startTracking_def stopTracking_def)

theorem redundant_start_stop_noop_witness:
  "isTracking (newTimeTracker 0 Map.empty None) \<and>
   startTracking 5000 (newTimeTracker 0 Map.empty None) = newTimeTracker 0 Map.empty None \<and>
   \<not> isTracking (stopTracking 7000 (newTimeTracker 0 Map.empty None)) \<and>
   stopTracking 9000 (stopTracking 7000 (newTimeTracker 0 Map.empty None)) =
     stopTracking 7000 (newTimeTracker 0 Map.empty None)"
  using redundant_start_stop_noop [of "newTimeTracker 0 Map.empty None" 5000]
    redundant_start_stop_noop [of "stopTracking 7000 (newTimeTracker 0 Map.empty None)" 9000]
  by (simp add: newTimeTracker_def startTracking_def stopTracking_def
      fieldInitialisers_def setupEventListeners_def setInterval_def
      clearInactivityTimer_def clearUpdateInterval_def clearInterval_def)

section \<open>Saving\<close>

text \<open>
  C4. Two calls of \<^verbatim>\<open>saveStats\<close> at the same clock value: the second one adds nothing to
  the stored \<open>totalTime\<close>, in every tracker state and whatever the outcome of either
  write. The same holds for any number of repeated saves at one instant, and two
  successful saves at different times count the time between them once (nothing when the
  first left the baseline at its zero sentinel).
\<close>

theorem save_twice_adds_zero:
  "totalTime (storedStats (saveStats now w2 (saveStats now w1 s))) =
     totalTime (storedStats (saveStats now w1 s)) \<and>
   totalTime (storedStats ((saveStats now w ^^ Suc n) s)) =
     totalTime (storedStats (saveStats now w s)) \<and>
   totalTime (storedStats (saveStats t2 WriteOk (saveStats t1 w s))) =
     totalTime (storedStats (saveStats t1 w s)) +
       (if currentTotalSessionTime t1 s = 0 then 0
        else currentTotalSessionTime t2 s - currentTotalSessionTime t1 s)"
proof -
  have "totalTime (storedStats ((saveStats now w ^^ Suc n) s)) =
        totalTime (storedStats (saveStats now w s))"
  proof (induction n)
    case 0
    show ?case by simp
  next
    case (Suc n)
    have "totalTime (storedStats ((saveStats now w ^^ Suc (Suc n)) s)) =
          totalTime (storedStats (saveStats now w (saveStats now w ((saveStats now w ^^ n) s))))"
      by simp
    also have "\<dots> = totalTime (storedStats (saveStats now w ((saveStats now w ^^ n) s)))"
      by (rule saveStats_same_instant)
    also have "\<dots> = totalTime (storedStats (saveStats now w s))"
      using Suc.IH by simp
    finally show ?case .
  qed
  then show ?thesis
    using saveStats_same_instant [of now w2 w1 s] saveStats_later [of t2 t1 w s] by blast
qed

text \<open>
  C2, as the spec states it, fails: the tracker is constructed at \<open>t = 0\<close> with an empty
  store and \<^verbatim>\<open>saveStats\<close> runs for the first time at \<open>t = 10 s\<close>. The stored \<open>totalTime\<close>
  is not 10 larger than before.
\<close>

theorem first_save_adds_ten_counterexample:
  "totalTime (storedStats (saveStats 10000 WriteOk (newTimeTracker 0 Map.empty None))) \<noteq>
   totalTime (storedStats (newTimeTracker 0 Map.empty None)) + 10"
  by (simp add: storedStats_saveStats storedStats_empty)

text \<open>
  C2, amended. A tracker constructed at \<open>t0\<close> that saves for the first time 10 s later
  leaves the stored \<open>totalTime\<close> as it was: \<^verbatim>\<open>saveStats\<close> calls \<^verbatim>\<open>getStats\<close>, whose guard
  \<^verbatim>\<open>if (this.lastSaveTime === 0)\<close> moves the baseline to the 10 s elapsed before the
  difference is taken, so the first save only sets the baseline to 10. After
  \<^verbatim>\<open>stopTracking\<close> at the same instant, a save 5 s later leaves \<open>totalTime\<close> unchanged
  (nothing accrues while Paused); without the stop, that save adds the 5 s.
\<close>

theorem first_save_sets_baseline_only:
  "totalTime (storedStats (saveStats (t0 + 10000) WriteOk (newTimeTracker t0 store ws))) =
     totalTime (storedStats (newTimeTracker t0 store ws)) \<and>
   lastSaveTime (saveStats (t0 + 10000) WriteOk (newTimeTracker t0 store ws)) = 10 \<and>
   totalTime (storedStats (saveStats (t0 + 15000) WriteOk
       (stopTracking (t0 + 10000)
         (saveStats (t0 + 10000) WriteOk (newTimeTracker t0 store ws))))) =
     totalTime (storedStats (saveStats (t0 + 10000) WriteOk (newTimeTracker t0 store ws))) \<and>
   totalTime (storedStats (saveStats (t0 + 15000) WriteOk
         (saveStats (t0 + 10000) WriteOk (newTimeTracker t0 store ws)))) =
     totalTime (storedStats (saveStats (t0 + 10000) WriteOk (newTimeTracker t0 store ws))) + 5"
proof -
  let ?s0 = "newTimeTracker t0 store ws"
  let ?s1 = "saveStats (t0 + 10000) WriteOk ?s0"
  let ?s2 = "stopTracking (t0 + 10000) ?s1"
  have cur: "currentTotalSessionTime (t0 + 10000) ?s0 = 10"
    by (simp add: currentTotalSessionTime_def)
  have a: "totalTime (storedStats ?s1) = totalTime (storedStats ?s0)"
    by (simp add: storedStats_saveStats)
  have b: "lastSaveTime ?s1 = 10"
    using cur by simp
  have s2: "\<not> isTracking ?s2" "currentSessionTime ?s2 = 10" "lastSaveTime ?s2 = 10"
    using cur by (simp_all add: stopTracking_fields)
  have st: "storedStats ?s2 = storedStats ?s1"
    by (rule storedStats_cong) (simp_all add: stopTracking_fields)
  have c: "totalTime (storedStats (saveStats (t0 + 15000) WriteOk ?s2)) =
           totalTime (storedStats ?s1)"
    using s2 st by (simp add: storedStats_saveStats [of _ _ ?s2] currentTotalSessionTime_def)
  have d: "totalTime (storedStats (saveStats (t0 + 15000) WriteOk ?s1)) =
           totalTime (storedStats ?s1) + 5"
    using cur by (simp add: saveStats_later currentTotalSessionTime_def)
  from a b c d show ?thesis by blast
qed



section \<open>Resetting\<close>

text \<open>
  C8. Right after \<^verbatim>\<open>resetStats\<close> (the write succeeding, the clock still at \<open>now\<close>), for
  every prior state: \<^verbatim>\<open>getStats().totalTime\<close> is 0 and the elapsed session time is 0,
  before and after that \<^verbatim>\<open>getStats\<close> call; the stored \<open>lastSaveTime\<close> is \<open>now\<close>; the fields
  \<open>currentSessionTime\<close> and \<open>lastSaveTime\<close> are 0; \<open>startTime\<close> is \<open>now\<close>; and
  \<open>isTracking\<close> is what it was.
\<close>

theorem reset_zeroes_accounting:
  "totalTime (fst (getStats now (resetStats now WriteOk s))) = 0 \<and>
   currentTotalSessionTime now (resetStats now WriteOk s) = 0 \<and>
   currentTotalSessionTime now (snd (getStats now (resetStats now WriteOk s))) = 0 \<and>
   stats_lastSaveTime (storedStats (resetStats now WriteOk s)) = now \<and>
   currentSessionTime (resetStats now WriteOk s) = 0 \<and>
   lastSaveTime (resetStats now WriteOk s) = 0 \<and>
   startTime (resetStats now WriteOk s) = now \<and>
   isTracking (resetStats now WriteOk s) = isTracking s"
  by (simp add: resetStats_def updateGlobalState_def storedStats_def getWorkspaceKey_def
      currentTotalSessionTime_def getStats_def)

text \<open>
  C9. The storage key is \<^verbatim>\<open>stats_\<close> followed by the workspace identity (the URI string
  of the first workspace folder, or \<^verbatim>\<open>global\<close> when there is none) and depends on nothing
  else. For two workspaces \<open>a\<close> and \<open>b\<close> with different identities the keys differ, and
  \<^verbatim>\<open>resetStats\<close> run in workspace \<open>a\<close> leaves the record stored for \<open>b\<close>, hence its
  \<open>totalTime\<close>, as it was, whether the write succeeds or not.
\<close>

theorem reset_other_workspace_untouched:
  "getWorkspaceKey s = ''stats_'' @ workspaceIdentity (workspaceFolders s) \<and>
   (workspaceIdentity a \<noteq> workspaceIdentity b \<longrightarrow>
      getWorkspaceKey (s\<lparr>workspaceFolders := a\<rparr>) \<noteq>
        getWorkspaceKey (s\<lparr>workspaceFolders := b\<rparr>) \<and>
      globalState (resetStats now w (s\<lparr>workspaceFolders := a\<rparr>))
          (getWorkspaceKey (s\<lparr>workspaceFolders := b\<rparr>)) =
        globalState s (getWorkspaceKey (s\<lparr>workspaceFolders := b\<rparr>)) \<and>
      storedStats ((resetStats now w (s\<lparr>workspaceFolders := a\<rparr>))\<lparr>workspaceFolders := b\<rparr>) =
        storedStats (s\<lparr>workspaceFolders := b\<rparr>))"
  by (cases w)
     (simp_all add: resetStats_def updateGlobalState_def storedStats_def getWorkspaceKey_def)

theorem reset_other_workspace_untouched_witness:
  "workspaceIdentity (Some [''file:///home/u/a'']) \<noteq> workspaceIdentity None \<and>
   totalTime (storedStats ((resetStats 7000 WriteOk
      ((newTimeTracker 0
          [''stats_global'' \<mapsto> \<lparr>totalTime = 42, stats_lastSaveTime = 1\<rparr>,
           ''stats_file:///home/u/a'' \<mapsto> \<lparr>totalTime = 17, stats_lastSaveTime = 2\<rparr>] None)
        \<lparr>workspaceFolders := Some [''file:///home/u/a'']\<rparr>))\<lparr>workspaceFolders := None\<rparr>)) = 42"
  using reset_other_workspace_untouched [of
      "newTimeTracker 0
          [''stats_global'' \<mapsto> \<lparr>totalTime = 42, stats_lastSaveTime = 1\<rparr>,
           ''stats_file:///home/u/a'' \<mapsto> \<lparr>totalTime = 17, stats_lastSaveTime = 2\<rparr>] None"
      "Some [''file:///home/u/a'']" None 7000 WriteOk]
  by (simp add: workspaceIdentity_def firstWorkspaceFolder_def storedStats_def
      getWorkspaceKey_def)

section \<open>Tracking runs\<close>

lemma tracking_fields:
  "isTracking (startTracking now s)"
  "startTime (startTracking now s) = (if isTracking s then startTime s else now)"
  "currentSessionTime (startTracking now s) = currentSessionTime s"
  "\<not> isTracking (stopTracking now s)"
  "startTime (stopTracking now s) = startTime s"
  "currentSessionTime (stopTracking now s) =
     (if isTracking s then currentSessionTime s + of_int (now - startTime s) / 1000
      else currentSessionTime s)"
  by (simp_all add: startTracking_def stopTracking_def setupEventListeners_def
      setInterval_def)

lemma applyCall_step:
  assumes "t0 \<le> t" and "isTracking s \<longrightarrow> startTime s \<le> t0"
  shows "currentTotalSessionTime t0 s \<le> currentTotalSessionTime t (applyCall (t, c) s)"
    and "isTracking (applyCall (t, c) s) \<longrightarrow> startTime (applyCall (t, c) s) \<le> t"
proof -
  show "currentTotalSessionTime t0 s \<le> currentTotalSessionTime t (applyCall (t, c) s)"
    using assms by (cases c) (simp_all add: currentTotalSessionTime_def tracking_fields)
  show "isTracking (applyCall (t, c) s) \<longrightarrow> startTime (applyCall (t, c) s) \<le> t"
    using assms by (cases c) (auto simp add: tracking_fields)
qed

lemma readings_sorted:
  "sorted (t0 # map fst cs) \<Longrightarrow> (isTracking s \<longrightarrow> startTime s \<le> t0) \<Longrightarrow>
   sorted (currentTotalSessionTime t0 s # readings cs s)"
proof (induction cs arbitrary: t0 s)
  case Nil
  show ?case by simp
next
  case (Cons c cs)
  obtain t k where c: "c = (t, k)" by (cases c)
  from Cons.prems(1) c have le: "t0 \<le> t" and srt: "sorted (t # map fst cs)" by simp_all
  let ?s' = "applyCall (t, k) s"
  have step: "currentTotalSessionTime t0 s \<le> currentTotalSessionTime t ?s'"
    and inv: "isTracking ?s' \<longrightarrow> startTime ?s' \<le> t"
    using applyCall_step [OF le Cons.prems(2)] by blast+
  have IH: "sorted (currentTotalSessionTime t ?s' # readings cs ?s')"
    using Cons.IH [OF srt inv] .
  then have "\<forall>x \<in> set (readings cs ?s'). currentTotalSessionTime t ?s' \<le> x" by simp
  with step have "\<forall>x \<in> set (readings cs ?s'). currentTotalSessionTime t0 s \<le> x" by fastforce
  with step IH show ?case by (simp add: c)
qed

text \<open>
  C6. Along every sequence of \<^verbatim>\<open>startTracking()\<close> and \<^verbatim>\<open>stopTracking()\<close> calls whose clock
  values do not decrease, starting at \<open>t0\<close> in a state whose running tracking run did not
  begin after \<open>t0\<close>, the elapsed session time read at \<open>t0\<close> and then after each call is a
  non-decreasing list; redundant calls are among the calls. \<^verbatim>\<open>resetStats\<close> is what sets
  the elapsed time back to 0.
\<close>

theorem elapsed_monotone:
  assumes "sorted (t0 # map fst cs)" and "isTracking s \<longrightarrow> startTime s \<le> t0"
  shows "sorted (currentTotalSessionTime t0 s # readings cs s) \<and>
         currentTotalSessionTime now (resetStats now w (run cs s)) = 0"
  using readings_sorted [OF assms]
  by (cases w) (simp_all add: resetStats_def updateGlobalState_def currentTotalSessionTime_def)

theorem elapsed_monotone_witness:
  "sorted ((0::int) # map fst [(1000, Start), (5000, Stop), (6000, Stop), (9000, Start), (12000, Start)]) \<and>
   readings [(1000, Start), (5000, Stop), (6000, Stop), (9000, Start), (12000, Start)]
     (newTimeTracker 0 Map.empty None) = [1, 5, 5, 5, 8] \<and>
   sorted (currentTotalSessionTime 0 (newTimeTracker 0 Map.empty None) #
     readings [(1000, Start), (5000, Stop), (6000, Stop), (9000, Start), (12000, Start)]
       (newTimeTracker 0 Map.empty None))"
proof -
  let ?cs = "[(1000::int, Start), (5000, Stop), (6000, Stop), (9000, Start), (12000, Start)]"
  let ?s = "newTimeTracker 0 Map.empty None"
  have h1: "sorted (0 # map fst ?cs)" by simp
  have h2: "isTracking ?s \<longrightarrow> startTime ?s \<le> 0" by simp
  have r: "readings ?cs ?s = [1, 5, 5, 5, 8]"
    by (simp add: currentTotalSessionTime_def tracking_fields)
  have m: "sorted (currentTotalSessionTime 0 ?s # readings ?cs ?s)"
    using elapsed_monotone [OF h1 h2, of 13000 WriteOk] by (rule conjunct1)
  show ?thesis
    by (intro conjI h1 r m)
qed

section \<open>Event subscriptions\<close>

lemma startTracking_timers [simp]:
  "timeouts (startTracking now s) = timeouts s"
  "inactivityTimer (startTracking now s) = inactivityTimer s"
  by (simp_all add: startTracking_def setupEventListeners_def setInterval_def)




lemma onActivity_fields [simp]:
  "isTracking (onActivity now s) = isTracking s"
  "startTime (onActivity now s) = startTime s"
  "currentSessionTime (onActivity now s) = currentSessionTime s"
  "subscriptions (onActivity now s) = subscriptions s"
  "nextHandle (onActivity now s) = Suc (nextHandle s)"
  "inactivityTimer (onActivity now s) = Some (nextHandle s)"
  by (simp_all add: onActivity_def resetInactivityTimer_def setTimeout_def)








section \<open>The inactivity deadline\<close>

lemma owned_clear: "timersOwned s \<Longrightarrow> timeouts (clearInactivityTimer s) = []"
proof (cases "inactivityTimer s")
  case None
  assume "timersOwned s"
  with None have "\<forall>p \<in> set (timeouts s). False"
    by (simp add: timersOwned_def list_all_iff)
  then have "timeouts s = []"
    by (cases "timeouts s") auto
  with None show ?thesis
    by (simp add: clearInactivityTimer_def)
next
  case (Some h)
  assume "timersOwned s"
  with Some have "\<forall>p \<in> set (timeouts s). fst p = h"
    by (auto simp add: timersOwned_def list_all_iff)
  then have "filter (\<lambda>p. fst p \<noteq> h) (timeouts s) = []"
    by (simp add: filter_empty_conv)
  with Some show ?thesis
    by (simp add: clearInactivityTimer_def clearTimeout_def)
qed

lemma onActivity_timeouts:
  "timersOwned s \<Longrightarrow> timeouts (onActivity a s) = [(nextHandle s, a + 20000)]"
  by (simp add: onActivity_def resetInactivityTimer_def setTimeout_def owned_clear
      inactivityTimeout_def)

lemma timersOwned_kept:
  "timersOwned (newTimeTracker now store ws)"
  "timersOwned s \<Longrightarrow> timersOwned (startTracking now s)"
  "timersOwned s \<Longrightarrow> timersOwned (stopTracking now s)"
  "timersOwned s \<Longrightarrow> timersOwned (onActivity now s)"
  "timersOwned s \<Longrightarrow> timersOwned (saveStats now w s)"
  "timersOwned s \<Longrightarrow> timersOwned (resetStats now w s)"
  "timersOwned s \<Longrightarrow> timersOwned (fireTimeout h now s)"
proof -
  show "timersOwned (newTimeTracker now store ws)"
    by (simp add: timersOwned_def)
  show "timersOwned s \<Longrightarrow> timersOwned (startTracking now s)"
    by (simp add: timersOwned_def)
  show stop: "timersOwned s \<Longrightarrow> timersOwned (stopTracking now s)" for s
    by (simp add: stopTracking_def timersOwned_def [of "clearUpdateInterval _"])
       (simp add: timersOwned_def owned_clear)
  show "timersOwned s \<Longrightarrow> timersOwned (onActivity now s)"
    by (simp add: timersOwned_def [of "onActivity now s"] onActivity_timeouts)
  show "timersOwned s \<Longrightarrow> timersOwned (saveStats now w s)"
    by (cases w) (simp_all add: timersOwned_def saveStats_unfold updateGlobalState_def)
  show "timersOwned s \<Longrightarrow> timersOwned (resetStats now w s)"
    by (cases w) (simp_all add: timersOwned_def resetStats_def updateGlobalState_def)
  have "timersOwned s \<Longrightarrow> timersOwned (clearTimeout h s)"
    by (simp add: timersOwned_def clearTimeout_def list_all_iff)
  then show "timersOwned s \<Longrightarrow> timersOwned (fireTimeout h now s)"
    by (simp add: fireTimeout_def stop split: option.splits)
qed

lemma elapse_single:
  assumes "timeouts s = [(h, d)]"
  shows "elapse t s = (if d \<le> t then stopTracking d (clearTimeout h s) else s)"
  using assms by (simp add: elapse_def fireTimeout_def)

lemma elapse_none: "timeouts s = [] \<Longrightarrow> elapse t s = s"
  by (simp add: elapse_def)

text \<open>
  C1, as the spec states it, fails: the tracker is constructed at \<open>t = 0\<close> (the
  constructor calls \<^verbatim>\<open>startTracking\<close>) and no activity follows. No timeout is pending,
  and at \<open>t = 20 s\<close> the tracker is still Tracking with \<open>currentSessionTime\<close> 0.
\<close>

theorem no_deadline_after_start_counterexample:
  "isTracking (elapse 20000 (newTimeTracker 0 Map.empty None)) \<and>
   currentSessionTime (elapse 20000 (newTimeTracker 0 Map.empty None)) = 0 \<and>
   timeouts (newTimeTracker 0 Map.empty None) = []"
  by (simp add: elapse_none)

text \<open>
  C1, amended. \<^verbatim>\<open>startTracking\<close> arms no inactivity deadline: it leaves the pending
  timeouts and the handle \<^verbatim>\<open>inactivityTimer\<close> as they are, and a freshly constructed
  tracker stays as it is however long no activity occurs. The deadline is armed by
  \<^verbatim>\<open>onActivity\<close> only: called at time \<open>a\<close>, it cancels the pending deadline and arms
  one new deadline due at \<open>a + 20 s\<close>. With no further activity the tracker is unchanged
  before that time; from that time on, if it was Tracking, it is Paused, the run up to
  \<open>a + 20 s\<close> is added to \<open>currentSessionTime\<close>, and no deadline is pending.
\<close>

theorem deadline_armed_by_activity_only:
  "timeouts (startTracking now s) = timeouts s \<and>
   inactivityTimer (startTracking now s) = inactivityTimer s \<and>
   elapse t (newTimeTracker t0 store ws) = newTimeTracker t0 store ws \<and>
   (timersOwned s \<longrightarrow>
      timeouts (onActivity a s) = [(nextHandle s, a + 20000)] \<and>
      inactivityTimer (onActivity a s) = Some (nextHandle s) \<and>
      timersOwned (onActivity a s) \<and>
      (t < a + 20000 \<longrightarrow> elapse t (onActivity a s) = onActivity a s) \<and>
      (isTracking s \<and> a + 20000 \<le> t \<longrightarrow>
         \<not> isTracking (elapse t (onActivity a s)) \<and>
         currentSessionTime (elapse t (onActivity a s)) =
           currentSessionTime s + of_int (a + 20000 - startTime s) / 1000 \<and>
         timeouts (elapse t (onActivity a s)) = [] \<and>
         inactivityTimer (elapse t (onActivity a s)) = None))"
proof -
  have e0: "elapse t (newTimeTracker t0 store ws) = newTimeTracker t0 store ws"
    by (simp add: elapse_none)
  have act: "timersOwned s \<longrightarrow>
      timeouts (onActivity a s) = [(nextHandle s, a + 20000)] \<and>
      inactivityTimer (onActivity a s) = Some (nextHandle s) \<and>
      timersOwned (onActivity a s) \<and>
      (t < a + 20000 \<longrightarrow> elapse t (onActivity a s) = onActivity a s) \<and>
      (isTracking s \<and> a + 20000 \<le> t \<longrightarrow>
         \<not> isTracking (elapse t (onActivity a s)) \<and>
         currentSessionTime (elapse t (onActivity a s)) =
           currentSessionTime s + of_int (a + 20000 - startTime s) / 1000 \<and>
         timeouts (elapse t (onActivity a s)) = [] \<and>
         inactivityTimer (elapse t (onActivity a s)) = None)"
  proof
    assume own: "timersOwned s"
    let ?act = "onActivity a s"
    have to: "timeouts ?act = [(nextHandle s, a + 20000)]"
      using own by (rule onActivity_timeouts)
    have el: "elapse t ?act =
        (if a + 20000 \<le> t then stopTracking (a + 20000) (clearTimeout (nextHandle s) ?act)
         else ?act)"
      using to by (rule elapse_single)
    have early: "t < a + 20000 \<longrightarrow> elapse t ?act = ?act"
      using el by simp
    have late: "isTracking s \<and> a + 20000 \<le> t \<longrightarrow>
         \<not> isTracking (elapse t ?act) \<and>
         currentSessionTime (elapse t ?act) =
           currentSessionTime s + of_int (a + 20000 - startTime s) / 1000 \<and>
         timeouts (elapse t ?act) = [] \<and>
         inactivityTimer (elapse t ?act) = None"
      using to by (simp add: el stopTracking_def clearTimeout_def clearInactivityTimer_def)
    show "timeouts ?act = [(nextHandle s, a + 20000)] \<and>
      inactivityTimer ?act = Some (nextHandle s) \<and>
      timersOwned ?act \<and>
      (t < a + 20000 \<longrightarrow> elapse t ?act = ?act) \<and>
      (isTracking s \<and> a + 20000 \<le> t \<longrightarrow>
         \<not> isTracking (elapse t ?act) \<and>
         currentSessionTime (elapse t ?act) =
           currentSessionTime s + of_int (a + 20000 - startTime s) / 1000 \<and>
         timeouts (elapse t ?act) = [] \<and>
         inactivityTimer (elapse t ?act) = None)"
      using to own early late by (simp add: timersOwned_kept)
  qed
  show ?thesis
    using e0 act by simp
qed

theorem deadline_armed_by_activity_only_witness:
  "timersOwned (newTimeTracker 0 Map.empty None) \<and>
   isTracking (newTimeTracker 0 Map.empty None) \<and>
   timeouts (onActivity 0 (newTimeTracker 0 Map.empty None)) = [(1, 20000)] \<and>
   isTracking (elapse 19999 (onActivity 0 (newTimeTracker 0 Map.empty None))) \<and>
   \<not> isTracking (elapse 20000 (onActivity 0 (newTimeTracker 0 Map.empty None))) \<and>
   currentSessionTime (elapse 20000 (onActivity 0 (newTimeTracker 0 Map.empty None))) = 20 \<and>
   timeouts (onActivity 19000 (onActivity 0 (newTimeTracker 0 Map.empty None))) = [(2, 39000)] \<and>
   isTracking (elapse 20000 (onActivity 19000 (onActivity 0 (newTimeTracker 0 Map.empty None)))) \<and>
   \<not> isTracking (elapse 39000 (onActivity 19000 (onActivity 0 (newTimeTracker 0 Map.empty None)))) \<and>
   currentSessionTime
     (elapse 39000 (onActivity 19000 (onActivity 0 (newTimeTracker 0 Map.empty None)))) = 39"
proof -
  let ?init = "newTimeTracker 0 Map.empty None"
  let ?act = "onActivity 0 ?init"
  have o0: "timersOwned ?init" by (rule timersOwned_kept)
  have o1: "timersOwned ?act" using o0 by (rule timersOwned_kept)
  have t0: "isTracking ?init" by simp
  have t1: "isTracking ?act" by simp
  note A = deadline_armed_by_activity_only [where s = ?init and a = 0 and t = 19999]
  note B = deadline_armed_by_activity_only [where s = ?init and a = 0 and t = 20000]
  note C = deadline_armed_by_activity_only [where s = ?act and a = 19000 and t = 20000]
  note D = deadline_armed_by_activity_only [where s = ?act and a = 19000 and t = 39000]
  have a: "timeouts ?act = [(1, 20000)]" using A o0 by simp
  have b: "isTracking (elapse 19999 ?act)" using A o0 by simp
  have c: "\<not> isTracking (elapse 20000 ?act)" using B o0 t0 by simp
  have d: "currentSessionTime (elapse 20000 ?act) = 20" using B o0 t0 by simp
  have e: "timeouts (onActivity 19000 ?act) = [(2, 39000)]" using C o1 by simp
  have f: "isTracking (elapse 20000 (onActivity 19000 ?act))" using C o1 by simp
  have g: "\<not> isTracking (elapse 39000 (onActivity 19000 ?act))" using D o1 t1 by simp
  have h: "currentSessionTime (elapse 39000 (onActivity 19000 ?act)) = 39" using D o1 t1 by simp
  show ?thesis
    by (intro conjI o0 t0 a b c d e f g h)
qed

section \<open>Formatting\<close>

lemma natToString_length: "10 \<le> n \<Longrightarrow> 2 \<le> length (natToString n)"
  by (subst natToString.simps, subst natToString.simps) simp

lemma pad_wide: "10 \<le> n \<Longrightarrow> padStart 2 (CHR ''0'') (natToString n) = natToString n"
  using natToString_length [of n] by (simp add: padStart_def)

lemma pad_digit: "n < 10 \<Longrightarrow> padStart 2 (CHR ''0'') (natToString n) = [CHR ''0'', ''0123456789'' ! n]"
  by (simp add: padStart_def natToString.simps)

lemma jsRem_nonneg:
  assumes "0 \<le> x" "0 < y"
  shows "jsRem x y = x - y * of_int \<lfloor>x / y\<rfloor>"
  using assms by (simp add: jsRem_def)

lemma floor_hours: "\<lfloor>s / 3600\<rfloor> = \<lfloor>s\<rfloor> div 3600" for s :: real
  using floor_divide_real_eq_div [of 3600 s] by simp

lemma int_minutes: "(x - 3600 * (x div 3600)) div 60 = x div 60 mod 60" for x :: int
proof -
  have "x - 3600 * (x div 3600) = x mod (60 * 60)"
    by (simp add: minus_mult_div_eq_mod)
  also have "\<dots> = 60 * (x div 60 mod 60) + x mod 60"
    by (rule zmod_zmult2_eq) simp
  finally have "(x - 3600 * (x div 3600)) div 60 = (x mod 60 + 60 * (x div 60 mod 60)) div 60"
    by (simp add: add.commute)
  also have "\<dots> = x div 60 mod 60"
    by simp
  finally show ?thesis .
qed

lemma floor_minutes:
  "\<lfloor>(s - 3600 * of_int \<lfloor>s / 3600\<rfloor>) / 60\<rfloor> = \<lfloor>s\<rfloor> div 60 mod 60" for s :: real
proof -
  have "\<lfloor>(s - 3600 * of_int \<lfloor>s / 3600\<rfloor>) / 60\<rfloor> = \<lfloor>s - of_int (3600 * \<lfloor>s / 3600\<rfloor>)\<rfloor> div 60"
    using floor_divide_real_eq_div [of 60 "s - 3600 * of_int \<lfloor>s / 3600\<rfloor>"] by simp
  also have "\<dots> = (\<lfloor>s\<rfloor> - 3600 * (\<lfloor>s\<rfloor> div 3600)) div 60"
    by (simp only: floor_diff_of_int floor_hours)
  also have "\<dots> = \<lfloor>s\<rfloor> div 60 mod 60"
    by (rule int_minutes)
  finally show ?thesis .
qed

lemma floor_secs:
  "\<lfloor>s - 60 * of_int \<lfloor>s / 60\<rfloor>\<rfloor> = \<lfloor>s\<rfloor> mod 60" for s :: real
proof -
  have q: "\<lfloor>s / 60\<rfloor> = \<lfloor>s\<rfloor> div 60"
    using floor_divide_real_eq_div [of 60 s] by simp
  have "\<lfloor>s - 60 * of_int \<lfloor>s / 60\<rfloor>\<rfloor> = \<lfloor>s - of_int (60 * \<lfloor>s / 60\<rfloor>)\<rfloor>"
    by simp
  also have "\<dots> = \<lfloor>s\<rfloor> - 60 * (\<lfloor>s\<rfloor> div 60)"
    by (simp only: floor_diff_of_int q)
  also have "\<dots> = \<lfloor>s\<rfloor> mod 60"
    by (simp add: minus_mult_div_eq_mod)
  finally show ?thesis .
qed

lemma formatTime_nonneg:
  assumes "0 \<le> seconds"
  shows "formatTime seconds =
     padStart 2 (CHR ''0'') (natToString (nat \<lfloor>seconds\<rfloor> div 3600)) @ '':'' @
     padStart 2 (CHR ''0'') (natToString (nat \<lfloor>seconds\<rfloor> div 60 mod 60)) @ '':'' @
     padStart 2 (CHR ''0'') (natToString (nat \<lfloor>seconds\<rfloor> mod 60))"
proof -
  have n: "0 \<le> \<lfloor>seconds\<rfloor>" using assms by simp
  have ts: "toString (int k) = natToString k" for k
    by (simp add: toString_def)
  have h: "toString \<lfloor>seconds / 3600\<rfloor> = natToString (nat \<lfloor>seconds\<rfloor> div 3600)"
  proof -
    have "\<lfloor>seconds / 3600\<rfloor> = int (nat \<lfloor>seconds\<rfloor> div 3600)"
      using n by (simp add: floor_hours zdiv_int)
    then show ?thesis by (simp only: ts)
  qed
  have m: "toString \<lfloor>jsRem seconds 3600 / 60\<rfloor> = natToString (nat \<lfloor>seconds\<rfloor> div 60 mod 60)"
  proof -
    have "jsRem seconds 3600 = seconds - 3600 * of_int \<lfloor>seconds / 3600\<rfloor>"
      using assms by (rule jsRem_nonneg) simp
    then have "\<lfloor>jsRem seconds 3600 / 60\<rfloor> = \<lfloor>seconds\<rfloor> div 60 mod 60"
      by (simp only: floor_minutes)
    also have "\<dots> = int (nat \<lfloor>seconds\<rfloor> div 60 mod 60)"
      using n by (simp add: zdiv_int zmod_int)
    finally show ?thesis by (simp only: ts)
  qed
  have s: "toString \<lfloor>jsRem seconds 60\<rfloor> = natToString (nat \<lfloor>seconds\<rfloor> mod 60)"
  proof -
    have "jsRem seconds 60 = seconds - 60 * of_int \<lfloor>seconds / 60\<rfloor>"
      using assms by (rule jsRem_nonneg) simp
    then have "\<lfloor>jsRem seconds 60\<rfloor> = \<lfloor>seconds\<rfloor> mod 60"
      by (simp only: floor_secs)
    also have "\<dots> = int (nat \<lfloor>seconds\<rfloor> mod 60)"
      using n by (simp add: zmod_int)
    finally show ?thesis by (simp only: ts)
  qed
  show ?thesis
    by (simp only: formatTime_def Let_def h m s)
qed

text \<open>
  C5. For a duration \<open>seconds \<ge> 0\<close>, \<^verbatim>\<open>formatTime\<close> works on the whole seconds
  \<open>N = \<lfloor>seconds\<rfloor>\<close>: the fields are the hours \<open>N div 3600\<close> (not reduced modulo 24 or
  anything else), the minutes \<open>N div 60 mod 60\<close> and the seconds \<open>N mod 60\<close>, each printed in
  decimal, joined by colons. A field below 10 is printed as a zero and its digit; a field
  of 10 or more is printed as it is, so the hours field grows beyond two digits and is
  never cut. In particular \<open>0\<close>, \<open>3661\<close> and \<open>360000\<close> give \<^verbatim>\<open>00:00:00\<close>, \<^verbatim>\<open>01:01:01\<close>
  and \<^verbatim>\<open>100:00:00\<close>.
\<close>

theorem formatTime_fields:
  "(0 \<le> seconds \<longrightarrow>
      formatTime seconds =
        padStart 2 (CHR ''0'') (natToString (nat \<lfloor>seconds\<rfloor> div 3600)) @ '':'' @
        padStart 2 (CHR ''0'') (natToString (nat \<lfloor>seconds\<rfloor> div 60 mod 60)) @ '':'' @
        padStart 2 (CHR ''0'') (natToString (nat \<lfloor>seconds\<rfloor> mod 60))) \<and>
   (n < 10 \<longrightarrow> padStart 2 (CHR ''0'') (natToString n) = [CHR ''0'', ''0123456789'' ! n]) \<and>
   (10 \<le> n \<longrightarrow> padStart 2 (CHR ''0'') (natToString n) = natToString n) \<and>
   formatTime 0 = ''00:00:00'' \<and>
   formatTime 3661 = ''01:01:01'' \<and>
   formatTime 360000 = ''100:00:00''"
proof -
  have ex0: "formatTime 0 = ''00:00:00''"
    by (simp add: formatTime_def jsRem_def toString_def padStart_def natToString.simps)
  have ex1: "formatTime 3661 = ''01:01:01''"
    by (simp add: formatTime_def jsRem_def toString_def padStart_def natToString.simps)
  have ex2: "formatTime 360000 = ''100:00:00''"
    by (simp add: formatTime_def jsRem_def toString_def padStart_def natToString.simps)
  show ?thesis
    using formatTime_nonneg [of seconds] pad_digit [of n] pad_wide [of n] ex0 ex1 ex2
    by simp
qed

theorem formatTime_fields_witness:
  "(0::real) \<le> 7325.75 \<and> formatTime 7325.75 = ''02:02:05'' \<and>
   (7::nat) < 10 \<and> padStart 2 (CHR ''0'') (natToString 7) = ''07'' \<and>
   (10::nat) \<le> 100 \<and> padStart 2 (CHR ''0'') (natToString 100) = ''100''"
proof -
  have a: "formatTime 7325.75 = ''02:02:05''"
    using formatTime_fields [of "7325.75" 7]
    by (simp add: padStart_def natToString.simps)
  have b: "padStart 2 (CHR ''0'') (natToString 7) = ''07''"
    using formatTime_fields [of "7325.75" 7] by simp
  have c: "padStart 2 (CHR ''0'') (natToString 100) = ''100''"
    using formatTime_fields [of "7325.75" 100] by (simp add: natToString.simps)
  show ?thesis
    using a b c by simp
qed

end
